theory Spec2Isabelle
  imports Complex_Main "HOL-Library.Sublist"
begin

section \<open>Python strings\<close>

text \<open>
  A Python \<open>str\<close> is a sequence of Unicode code points, and \<open>len\<close> counts code points.
  A code point is a natural number here; a literal of the source is written through \<open>lit\<close>.
\<close>

type_synonym str = "nat list"

definition lit :: "string \<Rightarrow> str" where
  "lit s = map of_char s"

text \<open>
  \<open>str.strip()\<close> without an argument removes the leading and trailing characters for which
  \<open>str.isspace\<close> holds: the code points of CPython's whitespace table.
\<close>

definition isspace :: "nat \<Rightarrow> bool" where
  "isspace c =
     ((0x09 \<le> c \<and> c \<le> 0x0D) \<or> (0x1C \<le> c \<and> c \<le> 0x20) \<or> c = 0x85 \<or> c = 0xA0 \<or>
      c = 0x1680 \<or> (0x2000 \<le> c \<and> c \<le> 0x200A) \<or> c = 0x2028 \<or> c = 0x2029 \<or>
      c = 0x202F \<or> c = 0x205F \<or> c = 0x3000)"

definition strip :: "str \<Rightarrow> str" where
  "strip s = rev (dropWhile isspace (rev (dropWhile isspace s)))"

text \<open>
  A slice \<open>xs[i:]\<close>: a negative start counts from the end and is cut off at the beginning
  of the list, a start beyond the end gives the empty list. \<open>xs[-0:]\<close> is \<open>xs[0:]\<close>, the
  whole list.
\<close>

definition slice_from :: "int \<Rightarrow> 'a list \<Rightarrow> 'a list" where
  "slice_from i xs =
     (let n = int (length xs);
          j = (if i < 0 then max 0 (n + i) else min i n)
      in drop (nat j) xs)"


section \<open>chatgpt_api.py: the conversation session\<close>

datatype role = System | User | Assistant

record message =
  role :: role
  content :: str

text \<open>
  The remote chat-completion call is a black box. It either returns a response, of which
  the code reads \<open>response.choices[i].message.content\<close> (\<open>None\<close> when the service sends no
  text), or raises. The exception classes are listed by the first \<open>except\<close> clause of
  \<open>send_message\<close> that matches them: \<open>RateLimitError\<close>, \<open>APIConnectionError\<close>, any other
  \<open>APIError\<close>, any other \<open>Exception\<close>.
\<close>

datatype api_exception = RateLimitError | APIConnectionError | APIError | OtherException

datatype api_outcome = Response "str option list" | Raise api_exception

type_synonym chat_api = "message list \<Rightarrow> api_outcome"

record client =
  conversation_history :: "message list"

definition MAX_CONVERSATION_HISTORY :: int where
  "MAX_CONVERSATION_HISTORY = 10"

text \<open>\<open>ChatGPTClient.__init__\<close>: an absent or empty system prompt adds no message.\<close>

definition init :: "str option \<Rightarrow> client" where
  "init system_prompt =
     (case system_prompt of
        None \<Rightarrow> \<lparr>conversation_history = []\<rparr>
      | Some p \<Rightarrow>
          if p = [] then \<lparr>conversation_history = []\<rparr>
          else \<lparr>conversation_history = [\<lparr>role = System, content = p\<rparr>]\<rparr>)"

text \<open>
  The body of \<open>_trim_history\<close> on the message list, for the value \<open>max_history\<close> read from
  \<open>Config.MAX_CONVERSATION_HISTORY\<close>.
\<close>

definition trim_messages :: "int \<Rightarrow> message list \<Rightarrow> message list" where
  "trim_messages max_history h =
     (if int (length h) > max_history then
        let system_msgs = filter (\<lambda>msg. role msg = System) h;
            other_msgs = filter (\<lambda>msg. role msg \<noteq> System) h;
            trimmed_msgs = slice_from (- (max_history - int (length system_msgs))) other_msgs
        in system_msgs @ trimmed_msgs
      else h)"

definition trim_history :: "client \<Rightarrow> client" where
  "trim_history c =
     c\<lparr>conversation_history := trim_messages MAX_CONVERSATION_HISTORY (conversation_history c)\<rparr>"

definition reset_conversation :: "client \<Rightarrow> client" where
  "reset_conversation c =
     (let system_msgs = filter (\<lambda>msg. role msg = System) (conversation_history c)
      in c\<lparr>conversation_history := system_msgs\<rparr>)"

text \<open>\<open>sum\<close> over the generator: a loop that starts from 0 and adds each length.\<close>

definition get_token_usage_estimate :: "client \<Rightarrow> int" where
  "get_token_usage_estimate c =
     (let total_chars = foldl (\<lambda>acc msg. acc + int (length (content msg))) 0 (conversation_history c)
      in total_chars div 4)"

text \<open>The sentence returned by the \<open>except\<close> clause that catches the exception.\<close>

fun fallback :: "api_exception \<Rightarrow> str" where
  "fallback RateLimitError =
     lit ''I'm receiving too many requests right now. Please try again in a moment.''"
| "fallback APIConnectionError =
     lit ''I'm having trouble connecting to my servers. Please check your internet connection.''"
| "fallback APIError =
     lit ''I encountered an error processing your request. Please try again.''"
| "fallback OtherException =
     lit ''An unexpected error occurred. Please try again.''"

text \<open>
  \<open>response.choices[0].message.content.strip()\<close>: an empty \<open>choices\<close> raises \<open>IndexError\<close>
  and a \<open>None\<close> content raises \<open>AttributeError\<close>, both inside the \<open>try\<close>.
\<close>

fun extract_text :: "api_outcome \<Rightarrow> api_exception + str" where
  "extract_text (Raise e) = Inl e"
| "extract_text (Response []) = Inl OtherException"
| "extract_text (Response (None # _)) = Inl OtherException"
| "extract_text (Response (Some text # _)) = Inr (strip text)"

text \<open>
  \<open>send_message\<close> returns the value of the call, the client after it, and the requests it
  issued to the remote service (the message list each one carried).
\<close>

definition send_message ::
    "chat_api \<Rightarrow> str \<Rightarrow> client \<Rightarrow> str option \<times> client \<times> message list list" where
  "send_message api user_message c =
     (if strip user_message = [] then (None, c, [])
      else
        let sent = conversation_history c @ [\<lparr>role = User, content = user_message\<rparr>];
            c1 = c\<lparr>conversation_history := sent\<rparr>
        in case extract_text (api sent) of
             Inr assistant_message \<Rightarrow>
               let c2 = c1\<lparr>conversation_history :=
                            sent @ [\<lparr>role = Assistant, content = assistant_message\<rparr>]\<rparr>
               in (Some assistant_message, trim_history c2, [sent])
           | Inl e \<Rightarrow> (Some (fallback e), c1, [sent]))"

text \<open>
  A run of exchanges on one client: each is a user text and what the remote call does for
  it. The result is the client after the last one.
\<close>

fun send_all :: "(str \<times> api_outcome) list \<Rightarrow> client \<Rightarrow> client" where
  "send_all [] c = c"
| "send_all ((user_message, outcome) # rest) c =
     send_all rest (fst (snd (send_message (\<lambda>_. outcome) user_message c)))"

text \<open>
  The history invariant of the data model: at most one system message, first when present.
  That is, no message after the first one is a system message.
\<close>

definition history_invariant :: "message list \<Rightarrow> bool" where
  "history_invariant h =
     (case h of [] \<Rightarrow> True | _ # rest \<Rightarrow> list_all (\<lambda>msg. role msg \<noteq> System) rest)"

text \<open>
  For the trimming scenario: \<open>successful xs\<close> are exchanges in which the remote call answers
  the user text \<open>u\<close> with the text \<open>t\<close>, and \<open>pair_messages xs\<close> are the user and assistant
  messages these exchanges append, in the order of appending.
\<close>

definition successful :: "(str \<times> str) list \<Rightarrow> (str \<times> api_outcome) list" where
  "successful xs = map (\<lambda>(u, t). (u, Response [Some t])) xs"

definition pair_messages :: "(str \<times> str) list \<Rightarrow> message list" where
  "pair_messages xs =
     concat (map (\<lambda>(u, t). [\<lparr>role = User, content = u\<rparr>,
                            \<lparr>role = Assistant, content = strip t\<rparr>]) xs)"

section \<open>stt.py: audio capture\<close>

text \<open>
  A chunk is the list of 16-bit signed samples that \<open>np.frombuffer(data, dtype=np.int16)\<close>
  decodes from one \<open>stream.read\<close>. \<open>np.abs\<close> on an \<open>int16\<close> array stays in \<open>int16\<close>, so the
  absolute value wraps around: \<open>np.abs(-32768) = -32768\<close>.
\<close>

type_synonym chunk = "int list"

definition int16 :: "int \<Rightarrow> int" where
  "int16 v = (v + 32768) mod 65536 - 32768"

definition np_abs :: "int \<Rightarrow> int" where
  "np_abs x = int16 \<bar>x\<bar>"

text \<open>
  \<open>np.abs(audio_data).mean() > silence_threshold\<close>. The mean is the exact quotient here
  (rounding of the \<open>float64\<close> quotient is not modelled); the mean of an empty array is
  \<open>nan\<close>, which exceeds nothing.
\<close>

definition amplitude :: "chunk \<Rightarrow> real" where
  "amplitude audio_data = real_of_int (\<Sum>x\<leftarrow>audio_data. np_abs x) / real (length audio_data)"

definition loud :: "int \<Rightarrow> chunk \<Rightarrow> bool" where
  "loud silence_threshold audio_data =
     (audio_data \<noteq> [] \<and> amplitude audio_data > real_of_int silence_threshold)"

text \<open>
  The microphone is a black box: creating \<open>PyAudio\<close> and opening the stream may raise, the
  \<open>i\<close>-th call of \<open>stream.read\<close> (counted from 0) returns a chunk or raises, and closing the
  stream may raise.
\<close>

datatype read_outcome = Chunk chunk | ReadError

record microphone =
  open_fails :: bool
  read :: "nat \<Rightarrow> read_outcome"
  close_fails :: bool

record capture_params =
  sample_rate :: int
  chunk_size :: int
  silence_threshold :: int
  silence_duration :: real
  max_duration :: int

text \<open>The defaults of \<open>record_audio\<close>, from \<open>config.py\<close>.\<close>

definition default_params :: capture_params where
  "default_params =
     \<lparr>sample_rate = 16000, chunk_size = 1024, silence_threshold = 500,
      silence_duration = 1.5, max_duration = 10\<rparr>"

text \<open>
  Lines 104 and 105 compute \<open>max_silent_chunks\<close> and \<open>max_chunks\<close> from the parameters
  in double-precision arithmetic, which is not modelled. The two integers are given beside
  the parameters as the budget of the call: \<open>Some (max_silent_chunks, max_chunks)\<close>, or
  \<open>None\<close> when their evaluation raises (\<open>ZeroDivisionError\<close> for a zero \<open>chunk_size\<close>,
  \<open>OverflowError\<close>). With the defaults the two quotients, \<open>24000 / 1024 = 23.4375\<close> and
  \<open>160000 / 1024 = 156.25\<close>, are binary fractions that double precision represents
  exactly, and \<open>int\<close> truncates them to 23 and 156.
\<close>

type_synonym budget = "(int \<times> int) option"

definition default_budget :: budget where
  "default_budget = Some (23, 156)"

text \<open>
  The state of one \<open>record_audio\<close> call: the local variables of the loop, and the number of
  \<open>stream.read\<close> calls made so far.
\<close>

record recording =
  frames :: "chunk list"
  silent_chunks :: int
  has_speech :: bool
  reads :: nat

text \<open>
  The loop \<open>for _ in range(max_chunks)\<close>, by the number of iterations left. A read that
  raises is caught inside the loop, which logs and leaves with \<open>break\<close>; the frame of that
  read is never appended.
\<close>

fun capture :: "microphone \<Rightarrow> int \<Rightarrow> int \<Rightarrow> nat \<Rightarrow> recording \<Rightarrow> recording" where
  "capture mic threshold max_silent_chunks 0 st = st"
| "capture mic threshold max_silent_chunks (Suc n) st =
     (case read mic (reads st) of
        ReadError \<Rightarrow> st\<lparr>reads := reads st + 1\<rparr>
      | Chunk data \<Rightarrow>
          let st1 = st\<lparr>frames := frames st @ [data], reads := reads st + 1\<rparr>;
              st2 = (if loud threshold data then st1\<lparr>has_speech := True, silent_chunks := 0\<rparr>
                     else if has_speech st1 then st1\<lparr>silent_chunks := silent_chunks st1 + 1\<rparr>
                     else st1)
          in if has_speech st2 \<and> silent_chunks st2 > max_silent_chunks then st2
             else capture mic threshold max_silent_chunks n st2)"

text \<open>
  \<open>record_audio\<close> returns the utterance (the samples scaled by \<open>1 / 32768\<close>, which is
  exact in \<open>float32\<close>) or \<open>None\<close>, and the number of \<open>stream.read\<close> calls it made. Every
  exception outside the loop reaches the outer handler, which returns \<open>None\<close>.
\<close>

definition record_audio ::
    "capture_params \<Rightarrow> budget \<Rightarrow> microphone \<Rightarrow> real list option \<times> nat" where
  "record_audio p b mic =
     (if open_fails mic then (None, 0)
      else case b of
        None \<Rightarrow> (None, 0)
      | Some (max_silent_chunks, max_chunks) \<Rightarrow>
          let st = capture mic (silence_threshold p) max_silent_chunks (nat max_chunks)
                     \<lparr>frames = [], silent_chunks = 0, has_speech = False, reads = 0\<rparr>
          in if close_fails mic then (None, reads st)
             else if \<not> has_speech st then (None, reads st)
             else (Some (map (\<lambda>x. real_of_int x / 32768) (concat (frames st))), reads st))"

text \<open>
  The mean absolute amplitude of a chunk in exact arithmetic, without the wrap-around of
  \<open>np.abs\<close>; and the chunks that the successful reads \<open>a, ..., b - 1\<close> returned.
\<close>

definition mean_abs_amplitude :: "chunk \<Rightarrow> real" where
  "mean_abs_amplitude audio_data =
     real_of_int (\<Sum>x\<leftarrow>audio_data. \<bar>x\<bar>) / real (length audio_data)"

definition chunks_read :: "microphone \<Rightarrow> nat \<Rightarrow> nat \<Rightarrow> chunk list" where
  "chunks_read mic a b =
     concat (map (\<lambda>i. case read mic i of Chunk data \<Rightarrow> [data] | ReadError \<Rightarrow> []) [a..<b])"

text \<open>
  The Whisper model is a black box: for an utterance it returns the texts of its segments,
  or raises. \<open>" ".join(...)\<close> puts one space between consecutive texts.
\<close>

datatype transcribe_outcome = Segments "str list" | TranscribeError

type_synonym whisper = "real list \<Rightarrow> transcribe_outcome"

fun join_space :: "str list \<Rightarrow> str" where
  "join_space [] = []"
| "join_space [x] = x"
| "join_space (x # y # rest) = x @ [0x20] @ join_space (y # rest)"

text \<open>
  \<open>transcribe\<close> and \<open>record_and_transcribe\<close> return the text or \<open>None\<close>, and the utterances
  that were handed to the model.
\<close>

definition transcribe :: "whisper option \<Rightarrow> real list \<Rightarrow> str option \<times> real list list" where
  "transcribe model audio_data =
     (case model of
        None \<Rightarrow> (None, [])
      | Some m \<Rightarrow>
          (case m audio_data of
             TranscribeError \<Rightarrow> (None, [audio_data])
           | Segments texts \<Rightarrow>
               let transcription = strip (join_space texts)
               in if transcription \<noteq> [] then (Some transcription, [audio_data])
                  else (None, [audio_data])))"

definition record_and_transcribe ::
    "whisper option \<Rightarrow> microphone \<Rightarrow> str option \<times> real list list" where
  "record_and_transcribe model mic =
     (case fst (record_audio default_params default_budget mic) of
        None \<Rightarrow> (None, [])
      | Some audio_data \<Rightarrow> transcribe model audio_data)"

section \<open>Exceptions\<close>

text \<open>
  A call returns a value or raises. Of a raised exception only its class matters:
  \<open>Exception\<close> stands for an instance of \<open>Exception\<close>, which \<open>except Exception\<close> catches;
  \<open>KeyboardInterrupt\<close> is raised when the interrupt signal arrives, and \<open>except Exception\<close>
  lets it through.
\<close>

datatype exn = Exception | KeyboardInterrupt

datatype 'a outcome = Returns 'a | Raises exn


section \<open>tts.py: speech output\<close>

text \<open>
  The \<open>pyttsx3\<close> engine is a black box with a rate, a volume and the texts it was asked to
  say and has played. Each of its methods may raise an error (an \<open>Exception\<close>): \<open>faulty\<close>
  tells which do, and a method that raises changes nothing.
\<close>

datatype engine_method = Say | RunAndWait | Stop | SetProperty

record pyttsx3 =
  rate :: int
  volume :: real
  said :: "str list"
  played :: "str list"
  faulty :: "engine_method \<Rightarrow> bool"

definition engine_say :: "str \<Rightarrow> pyttsx3 \<Rightarrow> pyttsx3 option" where
  "engine_say text e = (if faulty e Say then None else Some (e\<lparr>said := said e @ [text]\<rparr>))"

definition engine_runAndWait :: "pyttsx3 \<Rightarrow> pyttsx3 option" where
  "engine_runAndWait e =
     (if faulty e RunAndWait then None else Some (e\<lparr>said := [], played := played e @ said e\<rparr>))"

definition engine_stop :: "pyttsx3 \<Rightarrow> pyttsx3 option" where
  "engine_stop e = (if faulty e Stop then None else Some (e\<lparr>said := []\<rparr>))"

definition engine_set_rate :: "int \<Rightarrow> pyttsx3 \<Rightarrow> pyttsx3 option" where
  "engine_set_rate r e = (if faulty e SetProperty then None else Some (e\<lparr>rate := r\<rparr>))"

definition engine_set_volume :: "real \<Rightarrow> pyttsx3 \<Rightarrow> pyttsx3 option" where
  "engine_set_volume v e = (if faulty e SetProperty then None else Some (e\<lparr>volume := v\<rparr>))"

text \<open>
  \<open>TextToSpeech\<close>: the engine (\<open>None\<close> before initialisation and after \<open>cleanup\<close>), the
  voice rate, and the levels of the records written to the logger.
\<close>

datatype level = INFO | WARNING | ERROR

record tts =
  engine :: "pyttsx3 option"
  voice_rate :: int
  logged :: "level list"

definition speak :: "str \<Rightarrow> bool \<Rightarrow> tts \<Rightarrow> bool outcome \<times> tts" where
  "speak text blocking t =
     (if text = [] \<or> strip text = [] then (Returns False, t\<lparr>logged := logged t @ [WARNING]\<rparr>)
      else case engine t of
        None \<Rightarrow> (Returns False, t\<lparr>logged := logged t @ [ERROR]\<rparr>)
      | Some e \<Rightarrow>
          let t1 = t\<lparr>logged := logged t @ [INFO]\<rparr>
          in case engine_say text e of
               None \<Rightarrow> (Returns False, t1\<lparr>logged := logged t1 @ [ERROR]\<rparr>)
             | Some e1 \<Rightarrow>
                 if blocking then
                   (case engine_runAndWait e1 of
                      None \<Rightarrow> (Returns False, t1\<lparr>engine := Some e1, logged := logged t1 @ [ERROR]\<rparr>)
                    | Some e2 \<Rightarrow> (Returns True, t1\<lparr>engine := Some e2\<rparr>))
                 else (Returns True, t1\<lparr>engine := Some e1\<rparr>))"

definition stop :: "tts \<Rightarrow> unit outcome \<times> tts" where
  "stop t =
     (case engine t of
        None \<Rightarrow> (Returns (), t)
      | Some e \<Rightarrow>
          (case engine_stop e of
             None \<Rightarrow> (Returns (), t\<lparr>logged := logged t @ [ERROR]\<rparr>)
           | Some e1 \<Rightarrow> (Returns (), t\<lparr>engine := Some e1\<rparr>)))"

text \<open>
  \<open>set_rate\<close> and \<open>set_volume\<close> call \<open>setProperty\<close> outside any \<open>try\<close>: an error of the
  engine leaves the method at that call.
\<close>

definition set_rate :: "int \<Rightarrow> tts \<Rightarrow> unit outcome \<times> tts" where
  "set_rate r t =
     (case engine t of
        None \<Rightarrow> (Returns (), t)
      | Some e \<Rightarrow>
          (case engine_set_rate r e of
             None \<Rightarrow> (Raises Exception, t)
           | Some e1 \<Rightarrow>
               (Returns (), t\<lparr>engine := Some e1, voice_rate := r, logged := logged t @ [INFO]\<rparr>)))"

definition set_volume :: "real \<Rightarrow> tts \<Rightarrow> unit outcome \<times> tts" where
  "set_volume v t =
     (case engine t of
        None \<Rightarrow> (Returns (), t)
      | Some e \<Rightarrow>
          let v1 = max 0 (min 1 v)
          in case engine_set_volume v1 e of
               None \<Rightarrow> (Raises Exception, t)
             | Some e1 \<Rightarrow> (Returns (), t\<lparr>engine := Some e1, logged := logged t @ [INFO]\<rparr>))"

section \<open>assistant.py: the orchestrator\<close>

text \<open>
  \<open>VoiceAssistant\<close> reaches its four components through their methods only, and a component
  is whatever object its attribute holds. A component is therefore given by its methods,
  acting on a world \<open>'w\<close>: everything outside the assistant object (the devices, the engine,
  the remote service, the state of the components). Each call returns or raises.
\<close>

record 'w components =
  wake_word_listen_once :: "'w \<Rightarrow> bool outcome \<times> 'w"
  stt_record_and_transcribe :: "'w \<Rightarrow> str option outcome \<times> 'w"
  chatgpt_send_message :: "str \<Rightarrow> 'w \<Rightarrow> str option outcome \<times> 'w"
  tts_speak :: "str \<Rightarrow> bool \<Rightarrow> 'w \<Rightarrow> bool outcome \<times> 'w"














text \<open>
  The cycle isolation scenario: the wake word is detected at every poll, the transcription
  adapter raises at its first call and returns \<open>hello\<close> afterwards, the conversation is the
  \<open>ChatGPTClient\<close> above with a remote service that answers, and the speech output is the
  \<open>TextToSpeech\<close> above.
\<close>

record scenario_world =
  stt_calls :: nat
  chatgpt :: client
  requests :: "message list list"
  voice :: tts

definition scenario :: "scenario_world components" where
  "scenario =
     \<lparr>wake_word_listen_once = (\<lambda>w. (Returns True, w)),
      stt_record_and_transcribe =
        (\<lambda>w. (if stt_calls w = 0 then Raises Exception else Returns (Some (lit ''hello'')),
              w\<lparr>stt_calls := stt_calls w + 1\<rparr>)),
      chatgpt_send_message =
        (\<lambda>text w.
           case send_message (\<lambda>_. Response [Some (lit ''Hi there'')]) text (chatgpt w) of
             (r, c', sent) \<Rightarrow> (Returns r, w\<lparr>chatgpt := c', requests := requests w @ sent\<rparr>)),
      tts_speak =
        (\<lambda>text blocking w.
           case speak text blocking (voice w) of (r, t') \<Rightarrow> (r, w\<lparr>voice := t'\<rparr>))\<rparr>"


section \<open>Properties of the conversation session\<close>

lemma strip_empty_iff: "strip s = [] \<longleftrightarrow> list_all isspace s"
proof -
  have "dropWhile isspace s = [] \<longleftrightarrow> list_all isspace s"
    by (simp add: list_all_iff)
  moreover have "dropWhile isspace (rev (dropWhile isspace s)) = [] \<longleftrightarrow> dropWhile isspace s = []"
  proof
    assume a: "dropWhile isspace (rev (dropWhile isspace s)) = []"
    show "dropWhile isspace s = []"
    proof (rule ccontr)
      assume n: "dropWhile isspace s \<noteq> []"
      then have "\<not> isspace (hd (dropWhile isspace s))" by (rule hd_dropWhile)
      moreover from a have "\<forall>x\<in>set (dropWhile isspace s). isspace x"
        by simp
      ultimately show False using n by (meson hd_in_set)
    qed
  next
    assume e: "dropWhile isspace s = []"
    show "dropWhile isspace (rev (dropWhile isspace s)) = []" unfolding e by simp
  qed
  ultimately show ?thesis by (simp add: strip_def)
qed

lemma slice_from_neg: "i < 0 \<Longrightarrow> slice_from i xs = drop (length xs - nat (- i)) xs"
  by (auto simp: slice_from_def Let_def max_def intro!: arg_cong2[where f=drop])

lemma filter_sys_inv:
  "history_invariant h \<Longrightarrow> length (filter (\<lambda>msg. role msg = System) h) \<le> 1"
  by (cases h) (auto simp: history_invariant_def list_all_iff filter_empty_conv)

lemma trim_messages_within: "int (length h) \<le> H \<Longrightarrow> trim_messages H h = h"
  by (simp add: trim_messages_def)

lemma length_filter_role:
  "length (filter (\<lambda>msg. role msg = System) h) + length (filter (\<lambda>msg. role msg \<noteq> System) h) = length h"
  by (induction h) auto

lemma trim_messages_over:
  assumes "int (length (filter (\<lambda>msg. role msg = System) h)) < H" and "int (length h) > H"
  shows "trim_messages H h =
           filter (\<lambda>msg. role msg = System) h @
           drop (length (filter (\<lambda>msg. role msg \<noteq> System) h) -
                 nat (H - int (length (filter (\<lambda>msg. role msg = System) h))))
             (filter (\<lambda>msg. role msg \<noteq> System) h)"
  using assms by (simp add: trim_messages_def Let_def slice_from_neg)

lemma length_trim_messages:
  assumes "int (length (filter (\<lambda>msg. role msg = System) h)) < H" and "int (length h) > H"
  shows "int (length (trim_messages H h)) = H"
  using assms length_filter_role[of h] by (simp add: trim_messages_over) 

lemma trim_messages_idem:
  assumes "int (length (filter (\<lambda>msg. role msg = System) h)) < H"
  shows "trim_messages H (trim_messages H h) = trim_messages H h"
proof (cases "int (length h) > H")
  case True
  then have "int (length (trim_messages H h)) = H" using assms by (rule length_trim_messages[rotated])
  then show ?thesis by (simp add: trim_messages_within)
next
  case False
  then show ?thesis by (simp add: trim_messages_within)
qed

lemma trim_messages_pinned:
  assumes "role s = System" and "list_all (\<lambda>msg. role msg \<noteq> System) ms"
  shows "trim_messages 10 (s # ms) = s # drop (length ms - 9) ms"
proof -
  have f1: "filter (\<lambda>msg. role msg = System) ms = []"
    using assms(2) by (simp add: list_all_iff filter_empty_conv)
  have f2: "filter (\<lambda>msg. role msg \<noteq> System) ms = ms"
    using assms(2) by (simp add: list_all_iff filter_id_conv)
  show ?thesis
  proof (cases "int (length (s # ms)) > 10")
    case True
    then show ?thesis using assms(1) f1 f2
      by (simp add: trim_messages_def Let_def slice_from_neg)
  next
    case False
    then show ?thesis by (simp add: trim_messages_within)
  qed
qed

lemma keep_recent_append:
  "drop (length (drop (length p - k) p @ ys) - k) (drop (length p - k) p @ ys) =
   drop (length (p @ ys) - k) (p @ ys)"
  by (cases "length p \<le> k") (auto intro!: arg_cong2[where f=drop])

lemma send_message_success_pinned:
  assumes "role s = System" and "list_all (\<lambda>msg. role msg \<noteq> System) ms" and "\<not> list_all isspace u"
  shows "conversation_history (fst (snd (send_message (\<lambda>_. Response [Some t]) u \<lparr>conversation_history = s # ms\<rparr>))) =
         s # drop (length (ms @ [\<lparr>role = User, content = u\<rparr>, \<lparr>role = Assistant, content = strip t\<rparr>]) - 9)
                (ms @ [\<lparr>role = User, content = u\<rparr>, \<lparr>role = Assistant, content = strip t\<rparr>])"
proof -
  have "list_all (\<lambda>msg. role msg \<noteq> System) (ms @ [\<lparr>role = User, content = u\<rparr>, \<lparr>role = Assistant, content = strip t\<rparr>])"
    using assms(2) by simp
  from trim_messages_pinned[OF assms(1) this] assms(3) show ?thesis
    by (simp add: send_message_def strip_empty_iff Let_def trim_history_def MAX_CONVERSATION_HISTORY_def)
qed

lemma list_all_pair_messages: "list_all (\<lambda>msg. role msg \<noteq> System) (pair_messages xs)"
  by (induction xs) (auto simp: pair_messages_def)

lemma send_all_pinned:
  assumes "role s = System" and "list_all (\<lambda>msg. role msg \<noteq> System) prev"
    and "\<forall>(u, t)\<in>set xs. \<not> list_all isspace u"
  shows "conversation_history (send_all (successful xs) \<lparr>conversation_history = s # drop (length prev - 9) prev\<rparr>) =
         s # drop (length (prev @ pair_messages xs) - 9) (prev @ pair_messages xs)"
  using assms(2,3)
proof (induction xs arbitrary: prev)
  case Nil
  then show ?case by (simp add: successful_def pair_messages_def)
next
  case (Cons x xs)
  obtain u t where x: "x = (u, t)" by (cases x)
  let ?two = "[\<lparr>role = User, content = u\<rparr>, \<lparr>role = Assistant, content = strip t\<rparr>]"
  have nb: "\<not> list_all isspace u" using Cons.prems(2) x by simp
  have kept: "list_all (\<lambda>msg. role msg \<noteq> System) (drop (length prev - 9) prev)"
    using Cons.prems(1) by (auto simp: list_all_iff dest: in_set_dropD)
  obtain c' where c': "fst (snd (send_message (\<lambda>_. Response [Some t]) u \<lparr>conversation_history = s # drop (length prev - 9) prev\<rparr>)) = c'"
    by simp
  have "conversation_history c' = s # drop (length (prev @ ?two) - 9) (prev @ ?two)"
    using send_message_success_pinned[OF assms(1) kept nb, of t] keep_recent_append[of prev 9 ?two]
    unfolding c' by simp
  then have c'_eq: "c' = \<lparr>conversation_history = s # drop (length (prev @ ?two) - 9) (prev @ ?two)\<rparr>"
    by (cases c') simp
  have "list_all (\<lambda>msg. role msg \<noteq> System) (prev @ ?two)" using Cons.prems(1) by simp
  moreover have "\<forall>(u, t)\<in>set xs. \<not> list_all isspace u" using Cons.prems(2) by simp
  ultimately have "conversation_history (send_all (successful xs) c') =
      s # drop (length ((prev @ ?two) @ pair_messages xs) - 9) ((prev @ ?two) @ pair_messages xs)"
    unfolding c'_eq by (rule Cons.IH)
  moreover have "pair_messages (x # xs) = ?two @ pair_messages xs"
    by (simp add: pair_messages_def x)
  moreover have "send_all (successful (x # xs)) \<lparr>conversation_history = s # drop (length prev - 9) prev\<rparr> = send_all (successful xs) c'"
    using c' by (simp add: successful_def x)
  ultimately show ?case by simp
qed

lemma length_pair_messages: "length (pair_messages xs) = 2 * length xs"
  by (induction xs) (auto simp: pair_messages_def)

text \<open>
  C1. Trimming policy, for the configured bound \<open>H = MAX_CONVERSATION_HISTORY\<close> and a history
  with at most one system message. When the message count exceeds \<open>H\<close>, \<open>_trim_history\<close>
  leaves the system message (if present) followed by the most recent \<open>H - 1\<close> (or \<open>H\<close>,
  without a system message) other messages, in their order; a history within the bound is
  left as it is, and trimming twice is trimming once. In particular, from a client created
  with a system prompt, 15 answered exchanges leave exactly 10 messages: the system message,
  then the last 9 of the 30 appended messages in their order.
\<close>
theorem trim_history_policy:
  fixes c :: client
  assumes "length (filter (\<lambda>msg. role msg = System) (conversation_history c)) \<le> 1"
  shows
    "(int (length (conversation_history c)) > MAX_CONVERSATION_HISTORY \<longrightarrow>
        conversation_history (trim_history c) =
          filter (\<lambda>msg. role msg = System) (conversation_history c) @
          drop (length (filter (\<lambda>msg. role msg \<noteq> System) (conversation_history c)) -
                nat (MAX_CONVERSATION_HISTORY -
                     int (length (filter (\<lambda>msg. role msg = System) (conversation_history c)))))
            (filter (\<lambda>msg. role msg \<noteq> System) (conversation_history c))) \<and>
     (int (length (conversation_history c)) \<le> MAX_CONVERSATION_HISTORY \<longrightarrow> trim_history c = c) \<and>
     trim_history (trim_history c) = trim_history c \<and>
     (p \<noteq> [] \<and> length xs = 15 \<and> (\<forall>(u, t)\<in>set xs. \<not> list_all isspace u) \<longrightarrow>
        (let stored = conversation_history (send_all (successful xs) (init (Some p)))
         in length stored = 10 \<and> hd stored = \<lparr>role = System, content = p\<rparr> \<and>
            tl stored = drop 21 (pair_messages xs)))"
proof -
  let ?h = "conversation_history c"
  have lt: "int (length (filter (\<lambda>msg. role msg = System) ?h)) < MAX_CONVERSATION_HISTORY"
    using assms by (simp add: MAX_CONVERSATION_HISTORY_def)
  have over: "int (length ?h) > MAX_CONVERSATION_HISTORY \<longrightarrow>
        conversation_history (trim_history c) =
          filter (\<lambda>msg. role msg = System) ?h @
          drop (length (filter (\<lambda>msg. role msg \<noteq> System) ?h) -
                nat (MAX_CONVERSATION_HISTORY - int (length (filter (\<lambda>msg. role msg = System) ?h))))
            (filter (\<lambda>msg. role msg \<noteq> System) ?h)"
    using trim_messages_over[OF lt] by (simp add: trim_history_def)
  have within: "int (length ?h) \<le> MAX_CONVERSATION_HISTORY \<longrightarrow> trim_history c = c"
    by (simp add: trim_history_def trim_messages_within)
  have idem: "trim_history (trim_history c) = trim_history c"
    using trim_messages_idem[OF lt] by (simp add: trim_history_def)
  have scenario: "let stored = conversation_history (send_all (successful xs) (init (Some p)))
         in length stored = 10 \<and> hd stored = \<lparr>role = System, content = p\<rparr> \<and>
            tl stored = drop 21 (pair_messages xs)"
    if p: "p \<noteq> []" and n: "length xs = 15" and nb: "\<forall>(u, t)\<in>set xs. \<not> list_all isspace u"
  proof -
    have "conversation_history (send_all (successful xs)
            \<lparr>conversation_history = \<lparr>role = System, content = p\<rparr> # drop (length ([]::message list) - 9) []\<rparr>) =
          \<lparr>role = System, content = p\<rparr> # drop (length ([] @ pair_messages xs) - 9) ([] @ pair_messages xs)"
      by (rule send_all_pinned) (use nb in simp_all)
    then have "conversation_history (send_all (successful xs) (init (Some p))) =
          \<lparr>role = System, content = p\<rparr> # drop 21 (pair_messages xs)"
      using p n by (simp add: init_def length_pair_messages)
    then show ?thesis using n by (simp add: length_pair_messages)
  qed
  from over within idem scenario show ?thesis by blast
qed

theorem trim_history_policy_witness:
  "length (filter (\<lambda>msg. role msg = System)
     (conversation_history \<lparr>conversation_history =
        \<lparr>role = System, content = lit ''S''\<rparr> # map (\<lambda>n. \<lparr>role = User, content = [n]\<rparr>) [65, 66, 67, 68, 69, 70, 71, 72, 73, 74, 75, 76]\<rparr>)) \<le> 1 \<and>
   conversation_history (trim_history \<lparr>conversation_history =
        \<lparr>role = System, content = lit ''S''\<rparr> # map (\<lambda>n. \<lparr>role = User, content = [n]\<rparr>) [65, 66, 67, 68, 69, 70, 71, 72, 73, 74, 75, 76]\<rparr>) =
     \<lparr>role = System, content = lit ''S''\<rparr> # map (\<lambda>n. \<lparr>role = User, content = [n]\<rparr>) [68, 69, 70, 71, 72, 73, 74, 75, 76] \<and>
   length (map (\<lambda>n. ([n], [n + 32])) [65, 66, 67, 68, 69, 70, 71, 72, 73, 74, 75, 76, 77, 78, 79 :: nat]) = 15 \<and>
   conversation_history (send_all (successful (map (\<lambda>n. ([n], [n + 32])) [65, 66, 67, 68, 69, 70, 71, 72, 73, 74, 75, 76, 77, 78, 79]))
      (init (Some (lit ''S'')))) =
     [\<lparr>role = System, content = lit ''S''\<rparr>,
      \<lparr>role = Assistant, content = [107]\<rparr>,
      \<lparr>role = User, content = [76]\<rparr>, \<lparr>role = Assistant, content = [108]\<rparr>,
      \<lparr>role = User, content = [77]\<rparr>, \<lparr>role = Assistant, content = [109]\<rparr>,
      \<lparr>role = User, content = [78]\<rparr>, \<lparr>role = Assistant, content = [110]\<rparr>,
      \<lparr>role = User, content = [79]\<rparr>, \<lparr>role = Assistant, content = [111]\<rparr>]"
proof -
  let ?c = "\<lparr>conversation_history =
        \<lparr>role = System, content = lit ''S''\<rparr> # map (\<lambda>n. \<lparr>role = User, content = [n]\<rparr>) [65, 66, 67, 68, 69, 70, 71, 72, 73, 74, 75, 76]\<rparr>"
  let ?xs = "map (\<lambda>n. ([n], [n + 32])) [65, 66, 67, 68, 69, 70, 71, 72, 73, 74, 75, 76, 77, 78, 79 :: nat]"
  have one: "length (filter (\<lambda>msg. role msg = System) (conversation_history ?c)) \<le> 1"
    by simp
  have pre: "lit ''S'' \<noteq> [] \<and> length ?xs = 15 \<and> (\<forall>(u, t)\<in>set ?xs. \<not> list_all isspace u)"
    by (simp add: lit_def isspace_def)
  have stored: "pair_messages ?xs = X \<Longrightarrow> drop 21 X = Y \<Longrightarrow> 
     conversation_history (send_all (successful ?xs) (init (Some (lit ''S'')))) = \<lparr>role = System, content = lit ''S''\<rparr> # Y" for X Y
    using trim_history_policy[OF one, of "lit ''S''" ?xs] pre
    by (metis (no_types, lifting) hd_Cons_tl length_0_conv zero_neq_numeral)
  have over: "conversation_history (trim_history ?c) =
     \<lparr>role = System, content = lit ''S''\<rparr> # map (\<lambda>n. \<lparr>role = User, content = [n]\<rparr>) [68, 69, 70, 71, 72, 73, 74, 75, 76]"
    using trim_history_policy[OF one, of "lit ''S''" ?xs]
    by (simp add: MAX_CONVERSATION_HISTORY_def)
  show ?thesis
    apply (intro conjI one over)
     apply simp
    apply (rule stored)
     apply (simp add: pair_messages_def strip_def isspace_def)
    apply simp
    done
qed

lemma invariant_Cons: "list_all (\<lambda>msg. role msg \<noteq> System) rest \<Longrightarrow> history_invariant (m # rest)"
  by (simp add: history_invariant_def)

lemma invariant_others: "list_all (\<lambda>msg. role msg \<noteq> System) h \<Longrightarrow> history_invariant h"
  by (cases h) (simp_all add: history_invariant_def)

lemma list_all_slice_from: "list_all P xs \<Longrightarrow> list_all P (slice_from i xs)"
  by (auto simp: slice_from_def Let_def list_all_iff dest: in_set_dropD)

lemma suffix_slice_from: "suffix (slice_from i xs) xs"
  by (simp add: slice_from_def Let_def suffix_drop)

lemma filter_others: "list_all (\<lambda>msg. role msg \<noteq> System) h \<Longrightarrow>
    filter (\<lambda>msg. role msg \<noteq> System) h = h \<and> filter (\<lambda>msg. role msg = System) h = []"
  by (simp add: list_all_iff filter_id_conv filter_empty_conv)

lemma trim_messages_invariant:
  assumes "history_invariant h"
  shows "history_invariant (trim_messages H h)"
proof (cases h)
  case Nil
  then show ?thesis by (simp add: trim_messages_def Let_def slice_from_def history_invariant_def)
next
  case (Cons m rest)
  then have rest: "list_all (\<lambda>msg. role msg \<noteq> System) rest"
    using assms by (simp add: history_invariant_def)
  show ?thesis
  proof (cases "role m = System")
    case True
    then show ?thesis using Cons rest assms
      by (simp add: trim_messages_def Let_def filter_others invariant_Cons list_all_slice_from)
  next
    case False
    then have "list_all (\<lambda>msg. role msg \<noteq> System) (m # rest)" using rest by simp
    then show ?thesis using Cons assms filter_others[of "m # rest"]
      by (simp add: trim_messages_def Let_def invariant_others list_all_slice_from del: filter.simps)
  qed
qed

lemma trim_messages_system: 
  "filter (\<lambda>msg. role msg = System) (trim_messages H h) = filter (\<lambda>msg. role msg = System) h"
proof -
  have "filter (\<lambda>msg. role msg = System) (slice_from i (filter (\<lambda>msg. role msg \<noteq> System) h)) = []" for i
    by (auto simp: filter_empty_conv slice_from_def Let_def dest: in_set_dropD)
  then show ?thesis by (simp add: trim_messages_def Let_def)
qed

lemma trim_messages_others:
  "suffix (filter (\<lambda>msg. role msg \<noteq> System) (trim_messages H h)) (filter (\<lambda>msg. role msg \<noteq> System) h)"
proof -
  have "filter (\<lambda>msg. role msg \<noteq> System) (slice_from i (filter (\<lambda>msg. role msg \<noteq> System) h)) =
        slice_from i (filter (\<lambda>msg. role msg \<noteq> System) h)" for i
    by (auto simp: filter_id_conv slice_from_def Let_def dest: in_set_dropD)
  then show ?thesis by (simp add: trim_messages_def Let_def suffix_slice_from)
qed

lemma invariant_append:
  "history_invariant h \<Longrightarrow> list_all (\<lambda>msg. role msg \<noteq> System) new \<Longrightarrow> history_invariant (h @ new)"
  by (cases h) (auto simp: history_invariant_def intro: invariant_others[unfolded history_invariant_def])

lemma trim_messages_keeps_last2:
  assumes "history_invariant h" and "role a \<noteq> System" and "role b \<noteq> System"
  shows "\<exists>pre. trim_messages 10 (h @ [a, b]) = pre @ [a, b]"
proof (cases "int (length (h @ [a, b])) > 10")
  case False
  then show ?thesis by (simp add: trim_messages_within)
next
  case True
  let ?o = "filter (\<lambda>msg. role msg \<noteq> System) h"
  let ?s = "filter (\<lambda>msg. role msg = System) h"
  have s1: "length ?s \<le> 1" using assms(1) by (rule filter_sys_inv)
  have "slice_from (- (10 - int (length ?s))) (?o @ [a, b]) = 
        drop (length (?o @ [a, b]) - nat (10 - int (length ?s))) (?o @ [a, b])"
    using s1 slice_from_neg[of "- (10 - int (length ?s))" "?o @ [a, b]"] by simp
  also have "\<dots> = drop (length (?o @ [a, b]) - nat (10 - int (length ?s))) ?o @ [a, b]"
    using s1 by simp
  finally show ?thesis using True assms(2,3)
    by (simp add: trim_messages_def Let_def)
qed

text \<open>
  C3. The history invariant (at most one system message, first when present) holds after
  \<open>__init__\<close> and is preserved by \<open>_trim_history\<close>, \<open>reset_conversation\<close> and \<open>send_message\<close>.
  None of them removes or adds a system message. The other messages keep their order:
  trimming leaves a suffix of them, a reset leaves none, and \<open>send_message\<close> leaves the
  history unchanged (rejected input), appends the user message (failed call), or leaves a
  suffix of the old messages followed by the new user and assistant messages, which end the
  history (answered call).
\<close>
theorem history_invariant_preserved:
  fixes c :: client
  assumes "history_invariant (conversation_history c)"
  shows
    "history_invariant (conversation_history (init p)) \<and>
     history_invariant (conversation_history (trim_history c)) \<and>
     history_invariant (conversation_history (reset_conversation c)) \<and>
     history_invariant (conversation_history (fst (snd (send_message api u c)))) \<and>
     filter (\<lambda>msg. role msg = System) (conversation_history (trim_history c)) =
       filter (\<lambda>msg. role msg = System) (conversation_history c) \<and>
     filter (\<lambda>msg. role msg = System) (conversation_history (reset_conversation c)) =
       filter (\<lambda>msg. role msg = System) (conversation_history c) \<and>
     filter (\<lambda>msg. role msg = System) (conversation_history (fst (snd (send_message api u c)))) =
       filter (\<lambda>msg. role msg = System) (conversation_history c) \<and>
     suffix (filter (\<lambda>msg. role msg \<noteq> System) (conversation_history (trim_history c)))
       (filter (\<lambda>msg. role msg \<noteq> System) (conversation_history c)) \<and>
     filter (\<lambda>msg. role msg \<noteq> System) (conversation_history (reset_conversation c)) = [] \<and>
     (case fst (send_message api u c) of
        None \<Rightarrow> conversation_history (fst (snd (send_message api u c))) = conversation_history c
      | Some r \<Rightarrow>
          (case api (conversation_history c @ [\<lparr>role = User, content = u\<rparr>]) of
             Response (Some t # rest) \<Rightarrow>
               suffix (filter (\<lambda>msg. role msg \<noteq> System) (conversation_history (fst (snd (send_message api u c)))))
                 (filter (\<lambda>msg. role msg \<noteq> System) (conversation_history c) @
                  [\<lparr>role = User, content = u\<rparr>, \<lparr>role = Assistant, content = r\<rparr>]) \<and>
               (\<exists>pre. conversation_history (fst (snd (send_message api u c))) =
                  pre @ [\<lparr>role = User, content = u\<rparr>, \<lparr>role = Assistant, content = r\<rparr>])
           | _ \<Rightarrow> conversation_history (fst (snd (send_message api u c))) =
                   conversation_history c @ [\<lparr>role = User, content = u\<rparr>]))"
proof -
  let ?h = "conversation_history c"
  let ?user = "\<lparr>role = User, content = u\<rparr>"
  have i0: "history_invariant (conversation_history (init p))"
    by (simp add: init_def history_invariant_def split: option.split)
  have i1: "history_invariant (conversation_history (trim_history c))"
    using assms by (simp add: trim_history_def trim_messages_invariant)
  have i2: "history_invariant (conversation_history (reset_conversation c))"
    using assms by (cases ?h) (auto simp: reset_conversation_def history_invariant_def filter_others)
  have ext: "history_invariant (?h @ [?user]) \<and> history_invariant (?h @ [?user, \<lparr>role = Assistant, content = a\<rparr>])" for a
    using assms by (simp add: invariant_append)
  have i3: "history_invariant (conversation_history (fst (snd (send_message api u c))))"
    using assms ext
    by (simp add: send_message_def Let_def trim_history_def trim_messages_invariant split: sum.split)
  have s1: "filter (\<lambda>msg. role msg = System) (conversation_history (trim_history c)) =
       filter (\<lambda>msg. role msg = System) ?h"
    by (simp add: trim_history_def trim_messages_system)
  have s2: "filter (\<lambda>msg. role msg = System) (conversation_history (reset_conversation c)) =
       filter (\<lambda>msg. role msg = System) ?h"
    by (simp add: reset_conversation_def)
  have s3: "filter (\<lambda>msg. role msg = System) (conversation_history (fst (snd (send_message api u c)))) =
       filter (\<lambda>msg. role msg = System) ?h"
    by (simp add: send_message_def Let_def trim_history_def trim_messages_system split: sum.split)
  have o1: "suffix (filter (\<lambda>msg. role msg \<noteq> System) (conversation_history (trim_history c)))
       (filter (\<lambda>msg. role msg \<noteq> System) ?h)"
    by (simp add: trim_history_def trim_messages_others)
  have o2: "filter (\<lambda>msg. role msg \<noteq> System) (conversation_history (reset_conversation c)) = []"
    by (simp add: reset_conversation_def)
  have o3: "(case fst (send_message api u c) of
        None \<Rightarrow> conversation_history (fst (snd (send_message api u c))) = ?h
      | Some r \<Rightarrow>
          (case api (?h @ [?user]) of
             Response (Some t # rest) \<Rightarrow>
               suffix (filter (\<lambda>msg. role msg \<noteq> System) (conversation_history (fst (snd (send_message api u c)))))
                 (filter (\<lambda>msg. role msg \<noteq> System) ?h @ [?user, \<lparr>role = Assistant, content = r\<rparr>]) \<and>
               (\<exists>pre. conversation_history (fst (snd (send_message api u c))) =
                  pre @ [?user, \<lparr>role = Assistant, content = r\<rparr>])
           | _ \<Rightarrow> conversation_history (fst (snd (send_message api u c))) = ?h @ [?user]))"
  proof (cases "strip u = []")
    case True
    then show ?thesis by (simp add: send_message_def)
  next
    case nb: False
    show ?thesis
    proof (cases "extract_text (api (?h @ [?user]))")
      case (Inl e)
      then show ?thesis using nb
        by (auto simp: send_message_def Let_def split: api_outcome.split list.split option.split)
    next
      case (Inr a)
      then obtain t rest where resp: "api (?h @ [?user]) = Response (Some t # rest)" and a: "a = strip t"
        by (cases "api (?h @ [?user])" rule: extract_text.cases) auto
      let ?asst = "\<lparr>role = Assistant, content = a\<rparr>"
      have h': "conversation_history (fst (snd (send_message api u c))) = trim_messages 10 (?h @ [?user, ?asst])"
        using nb Inr by (simp add: send_message_def Let_def trim_history_def MAX_CONVERSATION_HISTORY_def)
      have r: "fst (send_message api u c) = Some a"
        using nb Inr by (simp add: send_message_def Let_def)
      have "suffix (filter (\<lambda>msg. role msg \<noteq> System) (trim_messages 10 (?h @ [?user, ?asst])))
              (filter (\<lambda>msg. role msg \<noteq> System) (?h @ [?user, ?asst]))"
        by (rule trim_messages_others)
      moreover have "\<exists>pre. trim_messages 10 (?h @ [?user, ?asst]) = pre @ [?user, ?asst]"
        using assms by (intro trim_messages_keeps_last2) simp_all
      ultimately show ?thesis using resp
        by (simp add: h' r)
    qed
  qed
  from i0 i1 i2 i3 s1 s2 s3 o1 o2 o3 show ?thesis by (intro conjI)
qed

theorem history_invariant_preserved_witness:
  "history_invariant (conversation_history \<lparr>conversation_history =
      [\<lparr>role = System, content = lit ''S''\<rparr>, \<lparr>role = User, content = lit ''hi''\<rparr>,
       \<lparr>role = Assistant, content = lit ''hello''\<rparr>]\<rparr>) \<and>
   history_invariant (conversation_history (fst (snd (send_message (\<lambda>_. Response [Some (lit '' ok '')]) (lit ''bye'')
      \<lparr>conversation_history =
        [\<lparr>role = System, content = lit ''S''\<rparr>, \<lparr>role = User, content = lit ''hi''\<rparr>,
         \<lparr>role = Assistant, content = lit ''hello''\<rparr>]\<rparr>)))) \<and>
   filter (\<lambda>msg. role msg = System) (conversation_history (reset_conversation \<lparr>conversation_history =
      [\<lparr>role = System, content = lit ''S''\<rparr>, \<lparr>role = User, content = lit ''hi''\<rparr>,
       \<lparr>role = Assistant, content = lit ''hello''\<rparr>]\<rparr>)) = [\<lparr>role = System, content = lit ''S''\<rparr>]"
proof -
  let ?c = "\<lparr>conversation_history =
      [\<lparr>role = System, content = lit ''S''\<rparr>, \<lparr>role = User, content = lit ''hi''\<rparr>,
       \<lparr>role = Assistant, content = lit ''hello''\<rparr>]\<rparr>"
  have inv: "history_invariant (conversation_history ?c)"
    by (simp add: history_invariant_def)
  have sys: "filter (\<lambda>msg. role msg = System) (conversation_history ?c) = [\<lparr>role = System, content = lit ''S''\<rparr>]"
    by simp
  from history_invariant_preserved[OF inv, of None "\<lambda>_. Response [Some (lit '' ok '')]" "lit ''bye''"] inv sys
  show ?thesis by metis
qed

lemma fallback_inj: "fallback e' = fallback e \<Longrightarrow> e' = e"
  by (cases e; cases e') (simp_all add: lit_def)

lemma fallback_not_blank: "\<not> list_all isspace (fallback e)"
  by (cases e) (simp_all add: lit_def isspace_def)

text \<open>
  C2. When the remote call raises for a non-blank user text, \<open>send_message\<close> issues that one
  request, appends only the user message (it is the last entry, no assistant message
  follows it), and returns the sentence of the \<open>except\<close> clause that caught the exception:
  one of the four sentences written out below, none of them blank. The sentence determines
  the category (distinct wording per category, so the rate-limit and the connection
  sentences differ), and any other failure of the same category, on any client, returns
  the same sentence.
\<close>
theorem send_message_failure:
  fixes c :: client
  assumes "\<not> list_all isspace u"
    and "api (conversation_history c @ [\<lparr>role = User, content = u\<rparr>]) = Raise e"
  shows
    "send_message api u c =
       (Some (fallback e),
        c\<lparr>conversation_history := conversation_history c @ [\<lparr>role = User, content = u\<rparr>]\<rparr>,
        [conversation_history c @ [\<lparr>role = User, content = u\<rparr>]]) \<and>
     last (conversation_history (fst (snd (send_message api u c)))) = \<lparr>role = User, content = u\<rparr> \<and>
     fst (send_message api u c) =
       Some (case e of
               RateLimitError \<Rightarrow>
                 lit ''I'm receiving too many requests right now. Please try again in a moment.''
             | APIConnectionError \<Rightarrow>
                 lit ''I'm having trouble connecting to my servers. Please check your internet connection.''
             | APIError \<Rightarrow>
                 lit ''I encountered an error processing your request. Please try again.''
             | OtherException \<Rightarrow>
                 lit ''An unexpected error occurred. Please try again.'') \<and>
     \<not> list_all isspace (fallback e) \<and>
     (\<forall>e'. fallback e' = fallback e \<longrightarrow> e' = e) \<and>
     fallback RateLimitError \<noteq> fallback APIConnectionError \<and>
     (\<forall>api' u' c'. \<not> list_all isspace u' \<and>
         api' (conversation_history c' @ [\<lparr>role = User, content = u'\<rparr>]) = Raise e \<longrightarrow>
         fst (send_message api' u' (c' :: client)) = fst (send_message api u c))"
proof -
  have sent: "send_message api' u' c' =
       (Some (fallback e),
        c'\<lparr>conversation_history := conversation_history c' @ [\<lparr>role = User, content = u'\<rparr>]\<rparr>,
        [conversation_history c' @ [\<lparr>role = User, content = u'\<rparr>]])"
    if "\<not> list_all isspace u'" and "api' (conversation_history c' @ [\<lparr>role = User, content = u'\<rparr>]) = Raise e"
    for api' u' and c' :: client
    using that by (simp add: send_message_def strip_empty_iff Let_def)
  have here: "send_message api u c =
       (Some (fallback e),
        c\<lparr>conversation_history := conversation_history c @ [\<lparr>role = User, content = u\<rparr>]\<rparr>,
        [conversation_history c @ [\<lparr>role = User, content = u\<rparr>]])"
    using assms by (rule sent)
  have distinct: "fallback RateLimitError \<noteq> fallback APIConnectionError"
    using fallback_inj[of RateLimitError APIConnectionError] by auto
  have literal: "fallback e =
       (case e of
          RateLimitError \<Rightarrow>
            lit ''I'm receiving too many requests right now. Please try again in a moment.''
        | APIConnectionError \<Rightarrow>
            lit ''I'm having trouble connecting to my servers. Please check your internet connection.''
        | APIError \<Rightarrow>
            lit ''I encountered an error processing your request. Please try again.''
        | OtherException \<Rightarrow>
            lit ''An unexpected error occurred. Please try again.'')"
    by (cases e) simp_all
  have returned: "fst (send_message api u c) = Some (fallback e)"
    using here by simp
  have is_last: "last (conversation_history (fst (snd (send_message api u c)))) =
                 \<lparr>role = User, content = u\<rparr>"
    using here by simp
  have inj: "\<forall>e'. fallback e' = fallback e \<longrightarrow> e' = e"
    using fallback_inj by blast
  have stable: "\<forall>api' u' c'. \<not> list_all isspace u' \<and>
         api' (conversation_history c' @ [\<lparr>role = User, content = u'\<rparr>]) = Raise e \<longrightarrow>
         fst (send_message api' u' (c' :: client)) = fst (send_message api u c)"
    using returned by (simp add: sent)
  show ?thesis
    by (intro conjI here is_last returned[unfolded literal] fallback_not_blank inj distinct stable)
qed

theorem send_message_failure_witness:
  "\<not> list_all isspace (lit ''hi'') \<and>
   send_message (\<lambda>_. Raise RateLimitError) (lit ''hi'') \<lparr>conversation_history = []\<rparr> =
     (Some (lit ''I'm receiving too many requests right now. Please try again in a moment.''),
      \<lparr>conversation_history = [\<lparr>role = User, content = lit ''hi''\<rparr>]\<rparr>,
      [[\<lparr>role = User, content = lit ''hi''\<rparr>]])"
proof -
  have nb: "\<not> list_all isspace (lit ''hi'')" by (simp add: lit_def isspace_def)
  from send_message_failure[OF nb, of "\<lambda>_. Raise RateLimitError" "\<lparr>conversation_history = []\<rparr>" RateLimitError] nb
  show ?thesis by simp
qed

text \<open>
  C7. For an empty or whitespace-only user text, \<open>send_message\<close> returns \<open>None\<close>, leaves the
  client unchanged and issues no request; so for \<open>""\<close> and for three spaces.
\<close>
theorem send_message_blank:
  fixes c :: client
  shows "(list_all isspace u \<longrightarrow> send_message api u c = (None, c, [])) \<and>
         send_message api (lit '''') c = (None, c, []) \<and>
         send_message api (lit ''   '') c = (None, c, [])"
proof -
  have blank: "send_message api v c = (None, c, [])" if "list_all isspace v" for v
    using that by (simp add: send_message_def strip_empty_iff)
  have "list_all isspace (lit '''')" "list_all isspace (lit ''   '')"
    by (simp_all add: lit_def isspace_def)
  then show ?thesis using blank by blast
qed

theorem send_message_blank_witness:
  "list_all isspace [0x20, 0x09, 0x0A, 0xA0, 0x3000] \<and>
   send_message (\<lambda>_. Response [Some (lit ''ok'')]) [0x20, 0x09, 0x0A, 0xA0, 0x3000]
      \<lparr>conversation_history = [\<lparr>role = System, content = lit ''S''\<rparr>]\<rparr> =
     (None, \<lparr>conversation_history = [\<lparr>role = System, content = lit ''S''\<rparr>]\<rparr>, [])"
proof -
  have b: "list_all isspace [0x20, 0x09, 0x0A, 0xA0, 0x3000]" by (simp add: isspace_def)
  from send_message_blank[of "[0x20, 0x09, 0x0A, 0xA0, 0x3000]" "\<lambda>_. Response [Some (lit ''ok'')]"
      "\<lparr>conversation_history = [\<lparr>role = System, content = lit ''S''\<rparr>]\<rparr>"] b
  show ?thesis by blast
qed

text \<open>
  C10. For a user text that is not blank, \<open>send_message\<close> returns a string: the stripped reply,
  or the fallback sentence of whatever went wrong in the remote call (an exception of any
  class, a response without choices or without text). It returns \<open>None\<close> exactly for blank
  input.
\<close>
theorem send_message_returns_text:
  fixes c :: client
  shows "(\<not> list_all isspace u \<longrightarrow>
            fst (send_message api u c) =
              Some (case extract_text (api (conversation_history c @ [\<lparr>role = User, content = u\<rparr>])) of
                      Inr assistant_message \<Rightarrow> assistant_message
                    | Inl e \<Rightarrow> fallback e)) \<and>
         (fst (send_message api u c) = None \<longleftrightarrow> list_all isspace u)"
  by (auto simp: send_message_def strip_empty_iff Let_def split: sum.split)

theorem send_message_returns_text_witness:
  "\<not> list_all isspace (lit '' hi '') \<and>
   fst (send_message (\<lambda>_. Response []) (lit '' hi '') \<lparr>conversation_history = []\<rparr>) =
     Some (lit ''An unexpected error occurred. Please try again.'')"
proof -
  have nb: "\<not> list_all isspace (lit '' hi '')" by (simp add: lit_def isspace_def)
  from send_message_returns_text[of "lit '' hi ''" "\<lambda>_. Response []" "\<lparr>conversation_history = []\<rparr>"] nb
  show ?thesis by simp
qed

lemma foldl_lengths:
  "foldl (\<lambda>acc msg. acc + int (length (content msg))) a h = a + (\<Sum>msg\<leftarrow>h. int (length (content msg)))"
  by (induction h arbitrary: a) simp_all

text \<open>
  C9. \<open>get_token_usage_estimate\<close> is the sum of the lengths of all message contents,
  integer-divided by 4; contents of 400 characters in total give 100.
\<close>
theorem token_usage_estimate:
  fixes c :: client
  shows "get_token_usage_estimate c = (\<Sum>msg\<leftarrow>conversation_history c. int (length (content msg))) div 4 \<and>
         ((\<Sum>msg\<leftarrow>conversation_history c. int (length (content msg))) = 400 \<longrightarrow>
            get_token_usage_estimate c = 100)"
  by (simp add: get_token_usage_estimate_def Let_def foldl_lengths)

theorem token_usage_estimate_witness:
  "(\<Sum>msg\<leftarrow>conversation_history \<lparr>conversation_history =
       [\<lparr>role = System, content = replicate 150 0x61\<rparr>, \<lparr>role = User, content = replicate 250 0x62\<rparr>]\<rparr>.
       int (length (content msg))) = 400 \<and>
   get_token_usage_estimate \<lparr>conversation_history =
       [\<lparr>role = System, content = replicate 150 0x61\<rparr>, \<lparr>role = User, content = replicate 250 0x62\<rparr>]\<rparr> = 100"
proof -
  let ?c = "\<lparr>conversation_history =
       [\<lparr>role = System, content = replicate 150 0x61\<rparr>, \<lparr>role = User, content = replicate 250 0x62\<rparr>]\<rparr>"
  have total: "(\<Sum>msg\<leftarrow>conversation_history ?c. int (length (content msg))) = 400" by simp
  from token_usage_estimate[of ?c] total show ?thesis by blast
qed


section \<open>Properties of the audio capture\<close>

lemma np_abs_le: "np_abs x \<le> \<bar>x\<bar>"
proof -
  have "(\<bar>x\<bar> + 32768) mod 65536 \<le> \<bar>x\<bar> + 32768"
    by (rule zmod_le_nonneg_dividend) simp
  then show ?thesis by (simp add: np_abs_def int16_def)
qed

lemma amplitude_le_mean_abs: "amplitude data \<le> mean_abs_amplitude data"
proof -
  have "(\<Sum>x\<leftarrow>data. np_abs x) \<le> (\<Sum>x\<leftarrow>data. \<bar>x\<bar>)"
    by (rule sum_list_mono) (rule np_abs_le)
  then show ?thesis
    by (simp add: amplitude_def mean_abs_amplitude_def divide_right_mono)
qed

lemma quiet_not_loud:
  "mean_abs_amplitude data \<le> real_of_int threshold \<Longrightarrow> \<not> loud threshold data"
  using amplitude_le_mean_abs[of data] by (simp add: loud_def)

lemma capture_no_speech:
  assumes "\<forall>i data. read mic i = Chunk data \<longrightarrow> \<not> loud threshold data" and "\<not> has_speech st"
  shows "\<not> has_speech (capture mic threshold msc n st)"
  using assms(2)
proof (induction n arbitrary: st)
  case 0
  then show ?case by simp
next
  case (Suc n)
  show ?case
  proof (cases "read mic (reads st)")
    case ReadError
    then show ?thesis using Suc.prems by simp
  next
    case (Chunk data)
    then have q: "\<not> loud threshold data" using assms(1) by blast
    let ?st1 = "st\<lparr>frames := frames st @ [data], reads := reads st + 1\<rparr>"
    have "\<not> has_speech ?st1" using Suc.prems by simp
    then have "\<not> has_speech (capture mic threshold msc n ?st1)" by (rule Suc.IH)
    then show ?thesis using Chunk q Suc.prems by (simp add: Let_def)
  qed
qed

text \<open>
  C8. When no chunk that the microphone delivers has a mean absolute amplitude above the
  silence threshold, \<open>record_audio\<close> returns \<open>None\<close>, whatever the other parameters, the
  budget and the device are; \<open>record_and_transcribe\<close> then returns \<open>None\<close> as well and hands nothing to the
  model.
\<close>
theorem record_audio_all_silence:
  assumes "\<forall>i data. read mic i = Chunk data \<longrightarrow>
             mean_abs_amplitude data \<le> real_of_int (silence_threshold p)"
  shows "fst (record_audio p b mic) = None \<and>
         (silence_threshold p = silence_threshold default_params \<longrightarrow>
            record_and_transcribe model mic = (None, []))"
proof -
  have "\<forall>i data. read mic i = Chunk data \<longrightarrow> \<not> loud (silence_threshold p) data"
    using assms quiet_not_loud by blast
  then have quiet: "\<not> has_speech (capture mic (silence_threshold p) msc n
       \<lparr>frames = [], silent_chunks = 0, has_speech = False, reads = 0\<rparr>)" for msc n
    by (rule capture_no_speech) simp
  then have none: "fst (record_audio q b' mic) = None"
    if "silence_threshold q = silence_threshold p" for q b'
    using that by (simp add: record_audio_def Let_def split: option.split)
  then show ?thesis by (simp add: record_and_transcribe_def)
qed

theorem record_audio_all_silence_witness:
  "mean_abs_amplitude [100, - 100] \<le> real_of_int (silence_threshold default_params) \<and>
   fst (record_audio default_params default_budget
          \<lparr>open_fails = False, read = (\<lambda>_. Chunk [100, - 100]), close_fails = False\<rparr>) = None \<and>
   record_and_transcribe (Some (\<lambda>_. Segments [lit ''hello''])) 
          \<lparr>open_fails = False, read = (\<lambda>_. Chunk [100, - 100]), close_fails = False\<rparr> = (None, [])"
proof -
  have q: "mean_abs_amplitude [100, - 100] \<le> real_of_int (silence_threshold default_params)"
    by (simp add: mean_abs_amplitude_def default_params_def)
  then have "\<forall>i data. read \<lparr>open_fails = False, read = (\<lambda>_. Chunk [100, - 100]), close_fails = False\<rparr> i = Chunk data \<longrightarrow>
             mean_abs_amplitude data \<le> real_of_int (silence_threshold default_params)"
    by simp
  from record_audio_all_silence[OF this, of default_budget "Some (\<lambda>_. Segments [lit ''hello''])"] q
  show ?thesis by simp
qed



lemma chunks_read_same [simp]: "chunks_read mic a a = []"
  by (simp add: chunks_read_def)







section \<open>Properties of the speech output\<close>

text \<open>
  C6, as the code has it. \<open>stop\<close> always returns: an error of the engine is caught and
  logged. \<open>set_rate\<close> and \<open>set_volume\<close> apply the value when the engine accepts it,
  \<open>set_volume\<close> after clamping it into \<open>[0, 1]\<close>; an error of the engine leaves both of them
  as an exception, with nothing logged and nothing changed. Without an engine the three
  methods do nothing.
\<close>
theorem tts_best_effort:
  fixes t :: tts
  shows
    "fst (stop t) = Returns () \<and>
     (engine t = Some e \<and> faulty e Stop \<longrightarrow> stop t = (Returns (), t\<lparr>logged := logged t @ [ERROR]\<rparr>)) \<and>
     (engine t = Some e \<and> \<not> faulty e SetProperty \<longrightarrow>
        set_rate r t =
          (Returns (), t\<lparr>engine := Some (e\<lparr>rate := r\<rparr>), voice_rate := r, logged := logged t @ [INFO]\<rparr>) \<and>
        set_volume v t =
          (Returns (), t\<lparr>engine := Some (e\<lparr>volume := max 0 (min 1 v)\<rparr>), logged := logged t @ [INFO]\<rparr>) \<and>
        0 \<le> max 0 (min 1 v) \<and> max 0 (min 1 v) \<le> 1) \<and>
     (engine t = Some e \<and> faulty e SetProperty \<longrightarrow>
        set_rate r t = (Raises Exception, t) \<and> set_volume v t = (Raises Exception, t)) \<and>
     (engine t = None \<longrightarrow>
        stop t = (Returns (), t) \<and> set_rate r t = (Returns (), t) \<and> set_volume v t = (Returns (), t))"
  by (auto simp: stop_def set_rate_def set_volume_def engine_stop_def engine_set_rate_def
      engine_set_volume_def Let_def split: option.split)

theorem tts_best_effort_witness:
  "engine \<lparr>engine = Some \<lparr>rate = 175, volume = 9 / 10, said = [], played = [],
                            faulty = (\<lambda>m. m = Stop \<or> m = SetProperty)\<rparr>,
           voice_rate = 175, logged = []\<rparr> =
     Some \<lparr>rate = 175, volume = 9 / 10, said = [], played = [],
           faulty = (\<lambda>m. m = Stop \<or> m = SetProperty)\<rparr> \<and>
   stop \<lparr>engine = Some \<lparr>rate = 175, volume = 9 / 10, said = [], played = [],
                          faulty = (\<lambda>m. m = Stop \<or> m = SetProperty)\<rparr>,
         voice_rate = 175, logged = []\<rparr> =
     (Returns (),
      \<lparr>engine = Some \<lparr>rate = 175, volume = 9 / 10, said = [], played = [],
                       faulty = (\<lambda>m. m = Stop \<or> m = SetProperty)\<rparr>,
       voice_rate = 175, logged = [ERROR]\<rparr>) \<and>
   fst (set_volume 3 \<lparr>engine = Some \<lparr>rate = 175, volume = 9 / 10, said = [], played = [],
                          faulty = (\<lambda>m. m = Stop \<or> m = SetProperty)\<rparr>,
         voice_rate = 175, logged = []\<rparr>) = Raises Exception"
proof -
  let ?e = "\<lparr>rate = 175, volume = 9 / 10, said = [], played = [],
            faulty = (\<lambda>m. m = Stop \<or> m = SetProperty)\<rparr>"
  let ?t = "\<lparr>engine = Some ?e, voice_rate = 175, logged = []\<rparr>"
  have e: "engine ?t = Some ?e" by simp
  have f: "faulty ?e Stop" "faulty ?e SetProperty" by simp_all
  from tts_best_effort[of ?t ?e 200 3] e f show ?thesis by simp
qed

text \<open>
  C6 as stated fails: with an engine whose \<open>setProperty\<close> raises, \<open>set_rate\<close> and
  \<open>set_volume\<close> raise and log nothing.
\<close>
theorem tts_best_effort_counterexample:
  "set_rate 200 \<lparr>engine = Some \<lparr>rate = 175, volume = 9 / 10, said = [], played = [],
                                 faulty = (\<lambda>m. m = SetProperty)\<rparr>,
                 voice_rate = 175, logged = []\<rparr> =
     (Raises Exception,
      \<lparr>engine = Some \<lparr>rate = 175, volume = 9 / 10, said = [], played = [],
                       faulty = (\<lambda>m. m = SetProperty)\<rparr>,
       voice_rate = 175, logged = []\<rparr>) \<and>
   set_volume (1 / 2) \<lparr>engine = Some \<lparr>rate = 175, volume = 9 / 10, said = [], played = [],
                                 faulty = (\<lambda>m. m = SetProperty)\<rparr>,
                 voice_rate = 175, logged = []\<rparr> =
     (Raises Exception,
      \<lparr>engine = Some \<lparr>rate = 175, volume = 9 / 10, said = [], played = [],
                       faulty = (\<lambda>m. m = SetProperty)\<rparr>,
       voice_rate = 175, logged = []\<rparr>)"
  by (simp add: set_rate_def set_volume_def engine_set_rate_def engine_set_volume_def)



section \<open>Properties of the orchestrator\<close>




















end
